theory Spec2Isabelle
  imports Main "HOL-Library.Sublist"
begin

section \<open>Thrown values and the canonical error\<close>

text \<open>
  A value that reaches a \<^verbatim>\<open>catch\<close> in \<^verbatim>\<open>index.ts\<close> is one of three things:
  \<^item> a value that is not an instance of \<^verbatim>\<open>Error\<close> (its template-string rendering, and
    its \<^verbatim>\<open>code\<close> property when it has one);
  \<^item> an instance of \<^verbatim>\<open>Error\<close> that is not a \<^verbatim>\<open>VFSError\<close>: its name, its message and its
    \<^verbatim>\<open>code\<close> property (\<open>None\<close> when there is none or it is not a string);
  \<^item> an instance of \<^verbatim>\<open>VFSError\<close>, built by \<^verbatim>\<open>new VFSError(message, { code, cause })\<close>:
    the message and the two options, \<open>None\<close> for an option the call leaves out.
\<close>

datatype js_error =
    NotAnError string "string option"
  | HostError string string "string option"
  | VFSError string "string option" "js_error option"

fun is_Error :: "js_error \<Rightarrow> bool" where
  "is_Error (NotAnError r c) = False"
| "is_Error (HostError n m c) = True"
| "is_Error (VFSError m c cause) = True"

fun is_VFSError :: "js_error \<Rightarrow> bool" where
  "is_VFSError (NotAnError r c) = False"
| "is_VFSError (HostError n m c) = False"
| "is_VFSError (VFSError m c cause) = True"

text \<open>
  Modelled from the spec: the class \<^verbatim>\<open>VFSError\<close> is imported from the package
  \<^verbatim>\<open>@socketsecurity/vfs\<close>, whose source is not part of \<^verbatim>\<open>index.ts\<close>. Its instances are taken
  to report the name \<^verbatim>\<open>VFSError\<close> (the spec: already-canonical errors pass through
  unchanged), and an instance built without a code keeps \<open>None\<close> here, which stands for
  the class's own default.
\<close>

fun err_name :: "js_error \<Rightarrow> string" where
  "err_name (NotAnError r c) = []"
| "err_name (HostError n m c) = n"
| "err_name (VFSError m c cause) = ''VFSError''"

fun err_message :: "js_error \<Rightarrow> string" where
  "err_message (NotAnError r c) = []"
| "err_message (HostError n m c) = m"
| "err_message (VFSError m c cause) = m"

fun err_code :: "js_error \<Rightarrow> string option" where
  "err_code (NotAnError r c) = c"
| "err_code (HostError n m c) = c"
| "err_code (VFSError m c cause) = c"

fun rendered :: "js_error \<Rightarrow> string" where
  "rendered (NotAnError r c) = r"
| "rendered (HostError n m c) = n @ '': '' @ m"
| "rendered (VFSError m c cause) = ''VFSError: '' @ m"

definition allowedErrorTypes :: "string list" where
  "allowedErrorTypes =
     [''ENOENT'', ''ENOSYS'', ''EISDIR'', ''ENOTDIR'', ''ENOTEMPTY'', ''EPERM'',
      ''EMFILE'', ''ENFILE'', ''EBADF'', ''EINVAL'', ''EEXIST'', ''EUNKNOWN'']"

text \<open>
  \<^verbatim>\<open>wrapVFSErr\<close>: \<^verbatim>\<open>message.startsWith(`${code}: `)\<close> is \<open>prefix (c @ '': '') m\<close> and
  \<^verbatim>\<open>message.slice(code.length + 2)\<close> is \<open>drop (length c + 2) m\<close>.
\<close>

definition wrapVFSErr :: "js_error \<Rightarrow> js_error" where
  "wrapVFSErr err =
     (if \<not> is_Error err then VFSError (rendered err) None None
      else if err_name err = ''AbortError'' then err
      else if err_name err = ''VFSError'' then err
      else
        (case err_code err of
           Some c \<Rightarrow>
             if c \<in> set allowedErrorTypes
             then VFSError
                    (if prefix (c @ '': '') (err_message err)
                     then drop (length c + 2) (err_message err)
                     else err_message err)
                    (Some c) (Some err)
             else VFSError (err_message err) (Some ''EUNKNOWN'') (Some err)
         | None \<Rightarrow> VFSError (err_message err) (Some ''EUNKNOWN'') (Some err)))"

text \<open>\<^verbatim>\<open>withVFSErr\<close>: a rejected promise is rethrown through \<^verbatim>\<open>wrapVFSErr\<close>.\<close>

definition withVFSErr :: "js_error + 'a \<Rightarrow> js_error + 'a" where
  "withVFSErr r = (case r of Inl err \<Rightarrow> Inl (wrapVFSErr err) | Inr v \<Rightarrow> Inr v)"

section \<open>JavaScript strings and \<^verbatim>\<open>node:path\<close>\<close>

text \<open>
  \<^verbatim>\<open>index.ts\<close> uses \<^verbatim>\<open>String.prototype.split\<close>, \<^verbatim>\<open>Array.prototype.join\<close> and the functions
  \<^verbatim>\<open>sep\<close>, \<^verbatim>\<open>isAbsolute\<close>, \<^verbatim>\<open>join\<close> and \<^verbatim>\<open>parse\<close> of \<^verbatim>\<open>node:path\<close>. They belong to the
  platform, not to the repository; the definitions below follow their POSIX
  implementation, where the separator is the one character \<^verbatim>\<open>/\<close>.
\<close>

definition path_sep :: string where
  "path_sep = ''/''"

text \<open>\<^verbatim>\<open>s.split(path.sep)\<close>: the pieces between separators; the empty string gives one empty piece.\<close>

fun js_split :: "string \<Rightarrow> string list" where
  "js_split [] = [[]]"
| "js_split (c # cs) =
     (if c = CHR ''/'' then [] # js_split cs
      else (case js_split cs of
              [] \<Rightarrow> [[c]]
            | w # ws \<Rightarrow> (c # w) # ws))"

text \<open>\<^verbatim>\<open>xs.join(s)\<close>.\<close>

fun array_join :: "string \<Rightarrow> string list \<Rightarrow> string" where
  "array_join s [] = []"
| "array_join s [x] = x"
| "array_join s (x # y # ys) = x @ s @ array_join s (y # ys)"

definition path_isAbsolute :: "string \<Rightarrow> bool" where
  "path_isAbsolute path = (case path of [] \<Rightarrow> False | c # cs \<Rightarrow> c = CHR ''/'')"

text \<open>
  \<^verbatim>\<open>normalizeString\<close> of \<^verbatim>\<open>node:path\<close>, on the pieces of the path: an empty piece and
  \<^verbatim>\<open>.\<close> are dropped, \<^verbatim>\<open>..\<close> removes the piece before it unless there is none or it is
  \<^verbatim>\<open>..\<close> itself, and is then kept only when the path may climb above its start. The
  second argument is the result so far, last piece first.
\<close>

fun normalize_segs :: "bool \<Rightarrow> string list \<Rightarrow> string list \<Rightarrow> string list" where
  "normalize_segs allowAboveRoot acc [] = rev acc"
| "normalize_segs allowAboveRoot acc (s # ss) =
     (if s = [] \<or> s = ''.'' then normalize_segs allowAboveRoot acc ss
      else if s = ''..'' then
        (case acc of
           [] \<Rightarrow> normalize_segs allowAboveRoot (if allowAboveRoot then [''..''] else []) ss
         | t # ts \<Rightarrow>
             if t = ''..''
             then normalize_segs allowAboveRoot (if allowAboveRoot then ''..'' # acc else acc) ss
             else normalize_segs allowAboveRoot ts ss)
      else normalize_segs allowAboveRoot (s # acc) ss)"

definition path_normalize :: "string \<Rightarrow> string" where
  "path_normalize path =
     (if path = [] then ''.''
      else
        (let isAbsolute = (hd path = CHR ''/'');
             trailingSeparator = (last path = CHR ''/'');
             res = array_join ''/'' (normalize_segs (\<not> isAbsolute) [] (js_split path))
         in if res = [] then (if isAbsolute then ''/'' else if trailingSeparator then ''./'' else ''.'')
            else (if isAbsolute then ''/'' else []) @ res @ (if trailingSeparator then ''/'' else [])))"

text \<open>\<^verbatim>\<open>path.join(a, b)\<close>: the non-empty arguments joined by the separator, then normalised.\<close>

definition path_join :: "string \<Rightarrow> string \<Rightarrow> string" where
  "path_join a b =
     (let joined = (if a = [] then b else if b = [] then a else a @ ''/'' @ b)
      in if joined = [] then ''.'' else path_normalize joined)"

text \<open>
  \<^verbatim>\<open>path.parse\<close>, the three fields \<^verbatim>\<open>index.ts\<close> reads. Trailing separators are not part
  of the base; the directory is what stands before the separator in front of the base,
  or the root when there is no such separator.
\<close>

record parsed_path =
  parsed_root :: string
  parsed_dir :: string
  parsed_base :: string

definition path_parse :: "string \<Rightarrow> parsed_path" where
  "path_parse path =
     (if path = [] then \<lparr>parsed_root = [], parsed_dir = [], parsed_base = []\<rparr>
      else
        (let isAbsolute = (hd path = CHR ''/'');
             start = (if isAbsolute then 1 else 0);
             trimmed = rev (dropWhile (\<lambda>c. c = CHR ''/'') (rev (drop start path)));
             b = rev (takeWhile (\<lambda>c. c \<noteq> CHR ''/'') (rev trimmed));
             startPart = (if length b < length trimmed then start + length trimmed - length b else 0)
         in \<lparr>parsed_root = (if isAbsolute then ''/'' else []),
             parsed_dir = (if 0 < startPart then take (startPart - 1) path
                           else if isAbsolute then ''/'' else []),
             parsed_base = b\<rparr>))"

section \<open>Path resolution under the jail\<close>

text \<open>
  \<^verbatim>\<open>_locOK\<close>: \<^verbatim>\<open>p.startsWith(base)\<close> and either the lengths agree or the character of \<^verbatim>\<open>p\<close>
  at index \<^verbatim>\<open>base.length\<close> is the separator (an index past the end reads \<^verbatim>\<open>undefined\<close>,
  which is not the separator).
\<close>

definition locOK :: "string \<Rightarrow> string \<Rightarrow> bool" where
  "locOK base p =
     (prefix base p \<and>
      (length p = length base \<or> (length base < length p \<and> [p ! length base] = path_sep)))"

text \<open>
  The candidate child of line 216:
  \<^verbatim>\<open>src[i] && src[i] !== '.' ? p + path.sep + src[i] : p\<close>.
\<close>

definition child_of :: "string \<Rightarrow> string \<Rightarrow> string" where
  "child_of p seg = (if seg \<noteq> [] \<and> seg \<noteq> ''.'' then p @ path_sep @ seg else p)"

text \<open>
  How the \<^verbatim>\<open>for\<close> loop of \<^verbatim>\<open>_validatePath\<close> is left: past its end or by \<^verbatim>\<open>break\<close>, with the
  running path \<^verbatim>\<open>p\<close>; by \<^verbatim>\<open>return null\<close> (line 211); or by a \<^verbatim>\<open>throw\<close>.
\<close>

datatype loop_exit = Finished string | ReturnNull | Throw js_error

text \<open>
  The loop of \<^verbatim>\<open>_validatePath\<close> (lines 207 to 256), from the state \<^verbatim>\<open>p\<close>, \<^verbatim>\<open>strict\<close>,
  \<^verbatim>\<open>depth\<close>, \<^verbatim>\<open>src\<close>, \<^verbatim>\<open>i\<close>. The host's \<^verbatim>\<open>fs.promises.readlink\<close> is the parameter
  \<open>readlink\<close>: \<open>Inr\<close> the link's target, \<open>Inl\<close> the error it rejects with. The result is
  the final value of \<^verbatim>\<open>depth\<close> and the way the loop is left.

  After a link is followed the source sets \<^verbatim>\<open>src = newSrc\<close> and \<^verbatim>\<open>i = 0\<close> at the end of the
  loop body, and the loop's own \<^verbatim>\<open>++i\<close> runs before the next test: the next iteration
  reads \<^verbatim>\<open>newSrc[1]\<close>. The recursive calls there continue at \<open>Suc 0\<close>.
\<close>

function validate_loop ::
  "(string \<Rightarrow> js_error + string) \<Rightarrow> string \<Rightarrow> bool \<Rightarrow> string \<Rightarrow> bool \<Rightarrow> nat \<Rightarrow> string list \<Rightarrow> nat
    \<Rightarrow> nat \<times> loop_exit" where
  "validate_loop readlink base thruLast p strict depth src i =
     (if \<not> i < length src then (depth, Finished p)
      else if src ! i = ''..'' then
        (if strict \<and> \<not> locOK base (path_join p ''..'') then (depth, ReturnNull)
         else validate_loop readlink base thruLast (path_join p ''..'') strict depth src (i + 1))
      else
        (case readlink (child_of p (src ! i)) of
           Inr linkPath \<Rightarrow>
             if 40 < depth + 1
             then (depth + 1, Throw (VFSError ''too many symlinks'' (Some ''EINVAL'') None))
             else if \<not> thruLast \<and> i = length src - 1
             then (depth + 1, Finished (child_of p (src ! i)))
             else if path_isAbsolute linkPath
             then validate_loop readlink base thruLast (parsed_root (path_parse linkPath)) False
                    (depth + 1)
                    (js_split (parsed_dir (path_parse linkPath))
                       @ [parsed_base (path_parse linkPath)] @ drop (i + 1) src)
                    (Suc 0)
             else validate_loop readlink base thruLast p True (depth + 1)
                    (js_split linkPath @ drop (i + 1) src) (Suc 0)
         | Inl err \<Rightarrow>
             if is_VFSError err then (depth, Throw err)
             else if err_code err = Some ''EINVAL''
             then validate_loop readlink base thruLast (child_of p (src ! i)) strict depth src (i + 1)
             else if err_code err = Some ''ENOENT'' \<and> i = length src - 1
             then validate_loop readlink base thruLast (child_of p (src ! i)) strict depth src (i + 1)
             else (depth, Throw (wrapVFSErr err))))"
  by pat_completeness auto
termination
  by (relation "measures [\<lambda>(readlink, base, thruLast, p, strict, depth, src, i). 41 - depth,
                          \<lambda>(readlink, base, thruLast, p, strict, depth, src, i). length src - i]")
    auto

declare validate_loop.simps [simp del]

text \<open>
  \<^verbatim>\<open>_validatePath\<close>: the loop from \<^verbatim>\<open>p = this._base\<close>, \<^verbatim>\<open>strict = true\<close>, \<^verbatim>\<open>depth = 0\<close>,
  \<^verbatim>\<open>i = 0\<close>, then line 258. \<open>Inr None\<close> is the result \<^verbatim>\<open>null\<close>.
\<close>

definition validatePath ::
  "(string \<Rightarrow> js_error + string) \<Rightarrow> string \<Rightarrow> string list \<Rightarrow> bool \<Rightarrow> js_error + string option" where
  "validatePath readlink base src thruLast =
     (case snd (validate_loop readlink base thruLast base True 0 src 0) of
        Finished p \<Rightarrow> Inr (if locOK base p then Some p else None)
      | ReturnNull \<Rightarrow> Inr None
      | Throw err \<Rightarrow> Inl err)"

text \<open>
  \<^verbatim>\<open>_fsPath\<close>. \<^verbatim>\<open>!loc\<close> holds for \<^verbatim>\<open>null\<close> and for the empty string.
\<close>

definition fsPath ::
  "(string \<Rightarrow> js_error + string) \<Rightarrow> string \<Rightarrow> string list \<Rightarrow> bool \<Rightarrow> js_error + string" where
  "fsPath readlink base src throughLast =
     (if src = [] then Inr base
      else
        (case validatePath readlink base src throughLast of
           Inl err \<Rightarrow> Inl err
         | Inr loc \<Rightarrow>
             (case loc of
                None \<Rightarrow> Inl (VFSError ''path outside base directory'' (Some ''EINVAL'') None)
              | Some l \<Rightarrow>
                  if l = [] then Inl (VFSError ''path outside base directory'' (Some ''EINVAL'') None)
                  else Inr l)))"

text \<open>
  The number of symbolic links one call of \<^verbatim>\<open>_fsPath\<close> has read when it ends: the final
  value of the local counter \<^verbatim>\<open>depth\<close>, which starts at 0 in every call.
\<close>

definition fsPath_hops ::
  "(string \<Rightarrow> js_error + string) \<Rightarrow> string \<Rightarrow> string list \<Rightarrow> bool \<Rightarrow> nat" where
  "fsPath_hops readlink base src throughLast =
     (if src = [] then 0
      else fst (validate_loop readlink base throughLast base True 0 src 0))"

section \<open>The host file system and the operations on it\<close>

text \<open>
  The calls of \<^verbatim>\<open>fs.promises\<close> the operations below make. Each returns what the promise
  resolves to (\<open>Inr\<close>) or the error it rejects with (\<open>Inl\<close>).
\<close>

record host =
  fs_readlink :: "string \<Rightarrow> js_error + string"
  fs_stat :: "string \<Rightarrow> js_error + unit"
  fs_unlink :: "string \<Rightarrow> js_error + unit"
  fs_symlink :: "string \<Rightarrow> string \<Rightarrow> js_error + unit"
  fs_realpath :: "string \<Rightarrow> js_error + string"

text \<open>
  Functions \<^verbatim>\<open>index.ts\<close> calls whose results the properties below leave open, taken as
  parameters:
  \<^verbatim>\<open>relative\<close>, \<^verbatim>\<open>resolve\<close> and \<^verbatim>\<open>dirname\<close> of \<^verbatim>\<open>node:path\<close>, and \<^verbatim>\<open>path.join\<close> of the
  package \<^verbatim>\<open>@socketsecurity/vfs\<close> (its first argument and the list of the others).
\<close>

record externals =
  path_relative :: "string \<Rightarrow> string \<Rightarrow> string"
  path_resolve :: "string \<Rightarrow> string \<Rightarrow> string"
  path_dirname :: "string \<Rightarrow> string"
  vfs_join :: "string \<Rightarrow> string list \<Rightarrow> string"

text \<open>\<^verbatim>\<open>_relPath\<close>; \<^verbatim>\<open>this._root\<close> is \<^verbatim>\<open>path.parse(this._base).root\<close>.\<close>

definition relPath :: "externals \<Rightarrow> string \<Rightarrow> string \<Rightarrow> bool \<Rightarrow> js_error + string" where
  "relPath x base src absolute =
     (if parsed_root (path_parse src) \<noteq> parsed_root (path_parse base)
      then Inl (VFSError ''cannot resolve filepath outside filesystem root'' (Some ''ENOSYS'') None)
      else Inr (vfs_join x (if absolute then ''/'' else ''.'')
                  (js_split (path_relative x base src))))"

text \<open>
  Full resolution followed by \<^verbatim>\<open>stat\<close>, the body of the \<^verbatim>\<open>try\<close> of \<^verbatim>\<open>_exists\<close> (line 341):
  \<^verbatim>\<open>await withVFSErr(fs.promises.stat(await this._fsPath(file)))\<close>.
\<close>

definition stat_resolved :: "host \<Rightarrow> string \<Rightarrow> string list \<Rightarrow> js_error + unit" where
  "stat_resolved h base file =
     (case fsPath (fs_readlink h) base file True of
        Inl err \<Rightarrow> Inl err
      | Inr loc \<Rightarrow> withVFSErr (fs_stat h loc))"

text \<open>\<^verbatim>\<open>_exists\<close>.\<close>

definition exists :: "host \<Rightarrow> string \<Rightarrow> string list \<Rightarrow> js_error + bool" where
  "exists h base file =
     (case stat_resolved h base file of
        Inr st \<Rightarrow> Inr True
      | Inl err \<Rightarrow>
          if is_VFSError err \<and> err_code err = Some ''ENOENT'' then Inr False else Inl err)"

text \<open>\<^verbatim>\<open>_removeFile\<close>.\<close>

definition removeFile :: "host \<Rightarrow> string \<Rightarrow> string list \<Rightarrow> js_error + unit" where
  "removeFile h base file =
     (case fsPath (fs_readlink h) base file False of
        Inl err \<Rightarrow> Inl err
      | Inr loc \<Rightarrow> withVFSErr (fs_unlink h loc))"

text \<open>\<^verbatim>\<open>_readSymlink\<close>.\<close>

definition readSymlink :: "externals \<Rightarrow> host \<Rightarrow> string \<Rightarrow> string list \<Rightarrow> js_error + string" where
  "readSymlink x h base link =
     (case fsPath (fs_readlink h) base link False of
        Inl err \<Rightarrow> Inl err
      | Inr fsLoc \<Rightarrow>
          (case withVFSErr (fs_readlink h fsLoc) of
             Inl err \<Rightarrow> Inl err
           | Inr result \<Rightarrow>
               relPath x base (path_resolve x (path_dirname x fsLoc) result) True))"

text \<open>\<^verbatim>\<open>_realPath\<close>.\<close>

definition realPath :: "externals \<Rightarrow> host \<Rightarrow> string \<Rightarrow> string list \<Rightarrow> js_error + string" where
  "realPath x h base link =
     (case fsPath (fs_readlink h) base link True of
        Inl err \<Rightarrow> Inl err
      | Inr loc \<Rightarrow>
          (case withVFSErr (fs_realpath h loc) of
             Inl err \<Rightarrow> Inl err
           | Inr result \<Rightarrow> relPath x base result True))"

text \<open>
  \<^verbatim>\<open>_symlink\<close>. The target string is built first, the link path is resolved next (with
  the default \<^verbatim>\<open>throughLast = true\<close>), and the host call is made last.
\<close>

definition symlink :: "host \<Rightarrow> string \<Rightarrow> string list \<Rightarrow> string list \<Rightarrow> bool \<Rightarrow> js_error + unit" where
  "symlink h base target link relative =
     (case fsPath (fs_readlink h) base link True of
        Inl err \<Rightarrow> Inl err
      | Inr loc \<Rightarrow>
          withVFSErr
            (fs_symlink h ((if relative then [] else base @ path_sep) @ array_join path_sep target)
               loc))"

section \<open>Watching\<close>

text \<open>
  A native event (\<^verbatim>\<open>path\<close>, \<^verbatim>\<open>type\<close>) and a registration \<^verbatim>\<open>{ isMatch, fire, err }\<close>. The
  set \<^verbatim>\<open>_watchCallbacks\<close> holds registrations by identity and is iterated in insertion
  order: a registration carries its identity \<open>reg_id\<close>, and the set is the list of its
  members. A call of \<^verbatim>\<open>cb.fire(evt)\<close> or \<^verbatim>\<open>cb.err(e)\<close> is recorded as a notification of
  that registration; the callbacks themselves belong to the caller.
\<close>

record watch_event =
  event_path :: string
  event_type :: string

record registration =
  reg_id :: nat
  isMatch :: "string \<Rightarrow> bool"

datatype notification = Fired nat watch_event | Errored nat js_error

fun notified :: "notification \<Rightarrow> nat" where
  "notified (Fired r evt) = r"
| "notified (Errored r err) = r"

text \<open>Lines 297 to 301, for one registration.\<close>

definition fire_matching :: "watch_event \<Rightarrow> watch_event \<Rightarrow> registration \<Rightarrow> notification list" where
  "fire_matching absEvt relEvt cb =
     (if isMatch cb (event_path absEvt) then [Fired (reg_id cb) absEvt]
      else if isMatch cb (event_path relEvt) then [Fired (reg_id cb) relEvt]
      else [])"

text \<open>
  The loop over the events of \<^verbatim>\<open>_onWatchEvent\<close> (lines 284 to 303): the notifications
  made, and the error thrown when \<^verbatim>\<open>_relPath\<close> throws, which ends the handler.
\<close>

fun fan_out ::
  "externals \<Rightarrow> string \<Rightarrow> registration list \<Rightarrow> watch_event list \<Rightarrow> notification list \<times> js_error option" where
  "fan_out x base cbs [] = ([], None)"
| "fan_out x base cbs (event # events) =
     (case relPath x base (event_path event) True of
        Inl err \<Rightarrow> ([], Some err)
      | Inr absPath \<Rightarrow>
          (case relPath x base (event_path event) False of
             Inl err \<Rightarrow> ([], Some err)
           | Inr relP \<Rightarrow>
               (case fan_out x base cbs events of
                  (later, thrown) \<Rightarrow>
                    (concat (map (fire_matching
                                    \<lparr>event_path = absPath, event_type = event_type event\<rparr>
                                    \<lparr>event_path = relP, event_type = event_type event\<rparr>) cbs)
                       @ later,
                     thrown))))"

text \<open>
  \<^verbatim>\<open>_onWatchEvent\<close> is a method of the class, not an arrow function, and the class body is
  strict code: its \<^verbatim>\<open>this\<close> is the receiver of the call. The receiver is the second
  argument here: \<open>Some\<close> the backend's \<^verbatim>\<open>_base\<close> and \<^verbatim>\<open>_watchCallbacks\<close>, or \<open>None\<close> for
  \<^verbatim>\<open>undefined\<close>. \<^verbatim>\<open>err\<close> is \<^verbatim>\<open>null\<close> (\<open>None\<close>) or an error.

  With \<^verbatim>\<open>this\<close> undefined the first read of a property of \<^verbatim>\<open>this\<close> throws a \<^verbatim>\<open>TypeError\<close>:
  \<^verbatim>\<open>this._watchCallbacks\<close> on line 280 when \<^verbatim>\<open>err\<close> is set, \<^verbatim>\<open>this._relPath\<close> on line 286 for
  the first event otherwise. No callback has been called by then.
\<close>

definition onWatchEvent ::
  "externals \<Rightarrow> (string \<times> registration list) option \<Rightarrow> js_error option \<Rightarrow> watch_event list
    \<Rightarrow> notification list \<times> js_error option" where
  "onWatchEvent x this err events =
     (case this of
        None \<Rightarrow>
          (case err of
             Some e \<Rightarrow>
               ([], Some (HostError ''TypeError''
                            ''Cannot read properties of undefined (reading '_watchCallbacks')'' None))
           | None \<Rightarrow>
               (case events of
                  [] \<Rightarrow> ([], None)
                | event # later \<Rightarrow>
                    ([], Some (HostError ''TypeError''
                                 ''Cannot read properties of undefined (reading '_relPath')'' None))))
      | Some (base, cbs) \<Rightarrow>
          (case fan_out x base cbs events of
             (fired, thrown) \<Rightarrow>
               ((case err of
                   None \<Rightarrow> []
                 | Some e \<Rightarrow>
                     map (\<lambda>cb. Errored (reg_id cb) (VFSError (err_message e) None (Some e))) cbs)
                  @ fired,
                thrown)))"

text \<open>
  The handler \<^verbatim>\<open>_watch\<close> registers with the native watcher on line 495:
  \<^verbatim>\<open>subscribeWatcher(this._base, this._onWatchEvent)\<close>. The second argument is the method
  read off the backend, with no \<^verbatim>\<open>bind\<close> and no arrow function around it, so the function
  handed over carries no receiver. The watcher calls it as a plain function, with its
  two arguments \<^verbatim>\<open>err\<close> and \<^verbatim>\<open>events\<close>: \<^verbatim>\<open>this\<close> is \<^verbatim>\<open>undefined\<close> in that call.
\<close>

definition subscribed_handler ::
  "externals \<Rightarrow> js_error option \<Rightarrow> watch_event list \<Rightarrow> notification list \<times> js_error option" where
  "subscribed_handler x err events = onWatchEvent x None err events"

text \<open>
  The two fields of the backend that \<^verbatim>\<open>_watch\<close> and the unsubscribe function it returns
  work on: the identities in \<^verbatim>\<open>_watchCallbacks\<close>, and \<^verbatim>\<open>_watcher\<close> (the handle of the native
  subscription, \<open>None\<close> for \<^verbatim>\<open>undefined\<close>).
\<close>

record watching =
  watchCallbacks :: "nat set"
  watcher :: "nat option"

text \<open>
  \<^verbatim>\<open>_watch\<close>, run to its end without another operation in between. \<open>entry\<close> is the identity
  of the new registration; \<open>subscribed\<close> is what \<^verbatim>\<open>subscribeWatcher\<close> gives when it is
  called: a handle, or the error it rejects with.
\<close>

definition watch :: "nat \<Rightarrow> js_error + nat \<Rightarrow> watching \<Rightarrow> (js_error + unit) \<times> watching" where
  "watch entry subscribed s =
     (let s1 = s\<lparr>watchCallbacks := insert entry (watchCallbacks s)\<rparr>
      in if watcher s1 = None
         then (case withVFSErr subscribed of
                 Inl err \<Rightarrow> (Inl err, s1)
               | Inr w \<Rightarrow> (Inr (), s1\<lparr>watcher := Some w\<rparr>))
         else (Inr (), s1))"

text \<open>
  The function \<^verbatim>\<open>_watch\<close> returns (lines 497 to 504). \<open>native_unsubscribe\<close> is the
  \<^verbatim>\<open>unsubscribe\<close> of a native handle; \<^verbatim>\<open>watcher!.unsubscribe()\<close> on \<^verbatim>\<open>undefined\<close> throws a
  \<^verbatim>\<open>TypeError\<close>.
\<close>

definition unsubscribe ::
  "nat \<Rightarrow> (nat \<Rightarrow> js_error + unit) \<Rightarrow> watching \<Rightarrow> (js_error + unit) \<times> watching" where
  "unsubscribe entry native_unsubscribe s =
     (let s1 = s\<lparr>watchCallbacks := watchCallbacks s - {entry}\<rparr>
      in if watchCallbacks s1 = {}
         then (case watcher s1 of
                 None \<Rightarrow>
                   (Inl (HostError ''TypeError''
                           ''Cannot read properties of undefined (reading 'unsubscribe')'' None),
                    s1\<lparr>watcher := None\<rparr>)
               | Some w \<Rightarrow> (withVFSErr (native_unsubscribe w), s1\<lparr>watcher := None\<rparr>))
         else (Inr (), s1))"

text \<open>The subscription exists exactly when the registration set is not empty.\<close>

definition consistent :: "watching \<Rightarrow> bool" where
  "consistent s = ((watcher s \<noteq> None) = (watchCallbacks s \<noteq> {}))"


section \<open>Example hosts\<close>

text \<open>The two errors \<^verbatim>\<open>readlink\<close> and \<^verbatim>\<open>stat\<close> reject with most often.\<close>

definition not_a_link :: js_error where
  "not_a_link = HostError ''Error'' ''EINVAL: invalid argument, readlink'' (Some ''EINVAL'')"

definition no_entry :: js_error where
  "no_entry = HostError ''Error'' ''ENOENT: no such file or directory'' (Some ''ENOENT'')"

text \<open>
  The tree of the relative link: the directories \<^verbatim>\<open>/root\<close> and \<^verbatim>\<open>/root/sub\<close>, the file
  \<^verbatim>\<open>/root/sub/file.txt\<close>, and the link \<^verbatim>\<open>/root/link\<close> with the stored target \<^verbatim>\<open>sub\<close>.
\<close>

definition relative_link_host :: host where
  "relative_link_host =
     \<lparr>fs_readlink = (\<lambda>p. if p = ''/root/link'' then Inr ''sub''
                          else if p \<in> set [''/root'', ''/root/sub'', ''/root/sub/file.txt'']
                          then Inl not_a_link else Inl no_entry),
      fs_stat = (\<lambda>p. if p \<in> set [''/root'', ''/root/sub'', ''/root/sub/file.txt'', ''/root/link'']
                      then Inr () else Inl no_entry),
      fs_unlink = (\<lambda>p. if p \<in> set [''/root/link'', ''/root/sub/file.txt'']
                        then Inr () else Inl no_entry),
      fs_symlink = (\<lambda>target p. Inl (HostError ''Error'' ''EEXIST: file already exists'' (Some ''EEXIST''))),
      fs_realpath = (\<lambda>p. if p \<in> set [''/root'', ''/root/sub'', ''/root/sub/file.txt'']
                          then Inr p
                          else if p = ''/root/link'' then Inr ''/root/sub''
                          else Inl no_entry)\<rparr>"

text \<open>
  A tree in which \<^verbatim>\<open>/root/out\<close> is a link with the absolute target \<^verbatim>\<open>/etc\<close>, outside the
  base directory \<^verbatim>\<open>/root\<close>; every other path is an existing file or directory.
\<close>

definition absolute_link_readlink :: "string \<Rightarrow> js_error + string" where
  "absolute_link_readlink p = (if p = ''/root/out'' then Inr ''/etc'' else Inl not_a_link)"

text \<open>A tree in which \<^verbatim>\<open>/r/a\<close> is a link to itself, with the stored target \<^verbatim>\<open>./a\<close>.\<close>

definition self_link_readlink :: "string \<Rightarrow> js_error + string" where
  "self_link_readlink p = (if p = ''/r/a'' then Inr ''./a'' else Inl not_a_link)"

text \<open>A tree in which \<^verbatim>\<open>/r/a\<close> and \<^verbatim>\<open>/r/b\<close> are links to each other.\<close>

definition mutual_links_readlink :: "string \<Rightarrow> js_error + string" where
  "mutual_links_readlink p =
     (if p = ''/r/a'' then Inr ''./b''
      else if p = ''/r/b'' then Inr ''./a''
      else Inl not_a_link)"

text \<open>
  The directory \<^verbatim>\<open>/root\<close> with the one file \<^verbatim>\<open>/root/a\<close>. Creating a link succeeds at a
  path that does not exist yet.
\<close>

definition small_host :: host where
  "small_host =
     \<lparr>fs_readlink = (\<lambda>p. if p \<in> set [''/root'', ''/root/a''] then Inl not_a_link else Inl no_entry),
      fs_stat = (\<lambda>p. if p \<in> set [''/root'', ''/root/a''] then Inr () else Inl no_entry),
      fs_unlink = (\<lambda>p. if p = ''/root/a'' then Inr () else Inl no_entry),
      fs_symlink = (\<lambda>target p. if p \<in> set [''/root'', ''/root/a'']
                      then Inl (HostError ''Error'' ''EEXIST: file already exists'' (Some ''EEXIST''))
                      else Inr ()),
      fs_realpath = (\<lambda>p. if p \<in> set [''/root'', ''/root/a''] then Inr p else Inl no_entry)\<rparr>"

text \<open>The same tree after the link \<^verbatim>\<open>/root/esc\<close> with the stored target \<^verbatim>\<open>../../etc\<close> was made.\<close>

definition escaping_link_readlink :: "string \<Rightarrow> js_error + string" where
  "escaping_link_readlink p =
     (if p = ''/root/esc'' then Inr ''../../etc''
      else if p \<in> set [''/root'', ''/root/a''] then Inl not_a_link
      else Inl no_entry)"

text \<open>
  Stand-ins for the functions taken as parameters, for the examples: on a path below
  the base directory they give the path relative to it, and the virtual path with the
  leading \<^verbatim>\<open>/\<close> or \<^verbatim>\<open>./\<close>.
\<close>

definition plain_externals :: externals where
  "plain_externals =
     \<lparr>path_relative = (\<lambda>from to. drop (length from + 1) to),
      path_resolve = (\<lambda>a b. a @ ''/'' @ b),
      path_dirname = (\<lambda>p. rev (drop 1 (dropWhile (\<lambda>c. c \<noteq> CHR ''/'') (rev p)))),
      vfs_join = (\<lambda>first rest. (if first = ''/'' then [] else first) @ ''/'' @ array_join ''/'' rest)\<rparr>"

text \<open>
  Four registrations: one matches the absolute form of \<^verbatim>\<open>sub/file.txt\<close> only, one the
  relative form only, one neither, one every path.
\<close>

definition example_registrations :: "registration list" where
  "example_registrations =
     [\<lparr>reg_id = 1, isMatch = (\<lambda>p. p = ''/sub/file.txt'')\<rparr>,
      \<lparr>reg_id = 2, isMatch = (\<lambda>p. p = ''./sub/file.txt'')\<rparr>,
      \<lparr>reg_id = 3, isMatch = (\<lambda>p. p = ''/other'')\<rparr>,
      \<lparr>reg_id = 4, isMatch = (\<lambda>p. True)\<rparr>]"


section \<open>Properties: error normalisation\<close>

lemma wrapVFSErr_VFSError: "wrapVFSErr (VFSError m c cause) = VFSError m c cause"
  by (simp add: wrapVFSErr_def)

lemma wrapVFSErr_not_an_error: "wrapVFSErr (NotAnError r c) = VFSError r None None"
  by (simp add: wrapVFSErr_def)

lemma wrapVFSErr_is_Error: "is_Error (wrapVFSErr err)"
  by (cases err) (simp_all add: wrapVFSErr_def split: option.split)

text \<open>
  C4. \<^verbatim>\<open>wrapVFSErr\<close> returns an error named \<^verbatim>\<open>AbortError\<close> and an error that is already a
  \<^verbatim>\<open>VFSError\<close> (by class or by name) as it is. For any other instance of \<^verbatim>\<open>Error\<close>: when
  its code is one of the twelve canonical codes, the result is a \<^verbatim>\<open>VFSError\<close> with that
  code, the original error as cause, and the message without a leading \<^verbatim>\<open>"<code>: "\<close>;
  otherwise the result is a \<^verbatim>\<open>VFSError\<close> with code \<^verbatim>\<open>EUNKNOWN\<close>, the original message and
  the original error as cause.
\<close>

theorem wrapVFSErr_normalises:
  "wrapVFSErr (HostError ''AbortError'' m co) = HostError ''AbortError'' m co
   \<and> wrapVFSErr (HostError ''VFSError'' m co) = HostError ''VFSError'' m co
   \<and> wrapVFSErr (VFSError m co cause) = VFSError m co cause
   \<and> (n \<noteq> ''AbortError'' \<and> n \<noteq> ''VFSError'' \<and> c \<in> set allowedErrorTypes \<longrightarrow>
        wrapVFSErr (HostError n m (Some c)) =
          VFSError (if prefix (c @ '': '') m then drop (length c + 2) m else m)
            (Some c) (Some (HostError n m (Some c))))
   \<and> (n \<noteq> ''AbortError'' \<and> n \<noteq> ''VFSError'' \<and> (\<forall>c. co = Some c \<longrightarrow> c \<notin> set allowedErrorTypes) \<longrightarrow>
        wrapVFSErr (HostError n m co) =
          VFSError m (Some ''EUNKNOWN'') (Some (HostError n m co)))"
  by (cases co) (simp_all add: wrapVFSErr_def)

theorem wrapVFSErr_normalises_witness:
  "''ENOENT'' \<in> set allowedErrorTypes
   \<and> wrapVFSErr (HostError ''Error''
        (''ENOENT: no such file or directory, stat '/root/x'' @ [CHR 0x27]) (Some ''ENOENT'')) =
      VFSError (''no such file or directory, stat '/root/x'' @ [CHR 0x27]) (Some ''ENOENT'')
        (Some (HostError ''Error''
          (''ENOENT: no such file or directory, stat '/root/x'' @ [CHR 0x27]) (Some ''ENOENT'')))
   \<and> ''EACCES'' \<notin> set allowedErrorTypes
   \<and> wrapVFSErr (HostError ''Error'' ''EACCES: permission denied'' (Some ''EACCES'')) =
      VFSError ''EACCES: permission denied'' (Some ''EUNKNOWN'')
        (Some (HostError ''Error'' ''EACCES: permission denied'' (Some ''EACCES'')))"
proof -
  have a: "''ENOENT'' \<in> set allowedErrorTypes"
    by (simp add: allowedErrorTypes_def)
  have b: "''EACCES'' \<notin> set allowedErrorTypes"
    by (simp add: allowedErrorTypes_def)
  have c: "\<forall>c. Some ''EACCES'' = Some c \<longrightarrow> c \<notin> set allowedErrorTypes"
    using b by simp
  show ?thesis
    using a b c
      wrapVFSErr_normalises [of "''ENOENT: no such file or directory, stat '/root/x'' @ [CHR 0x27]"
        "Some ''ENOENT''" None "''Error''" "''ENOENT''"]
      wrapVFSErr_normalises [of "''EACCES: permission denied''" "Some ''EACCES''" None "''Error''"
        "''ENOENT''"]
    by simp
qed

section \<open>Properties: path resolution\<close>

text \<open>\<^verbatim>\<open>_locOK\<close> is the test the spec words as: equal to the base directory, or the base
  directory followed by the separator and more.\<close>

lemma locOK_iff: "locOK b p \<longleftrightarrow> p = b \<or> (\<exists>rest. p = b @ path_sep @ rest)"
proof
  assume "locOK b p"
  then obtain zs where p: "p = b @ zs"
    and d: "length p = length b \<or> (length b < length p \<and> [p ! length b] = path_sep)"
    by (auto simp: locOK_def prefix_def)
  show "p = b \<or> (\<exists>rest. p = b @ path_sep @ rest)"
  proof (cases zs)
    case Nil
    with p show ?thesis by simp
  next
    case (Cons z zs')
    with p d have "z = CHR ''/''" by (simp add: path_sep_def)
    with p Cons show ?thesis by (simp add: path_sep_def)
  qed
next
  assume "p = b \<or> (\<exists>rest. p = b @ path_sep @ rest)"
  then show "locOK b p"
    by (auto simp: locOK_def path_sep_def)
qed

text \<open>
  From a counter of at most 40 the loop ends with a counter of at most 41, and with 41
  only by the throw of line 220.
\<close>

lemma validate_loop_depth:
  "depth \<le> 40 \<Longrightarrow>
   fst (validate_loop rl b t p s depth src i) \<le> 41 \<and>
   (40 < fst (validate_loop rl b t p s depth src i) \<longrightarrow>
      snd (validate_loop rl b t p s depth src i) =
        Throw (VFSError ''too many symlinks'' (Some ''EINVAL'') None))"
proof (induction rl b t p s depth src i rule: validate_loop.induct)
  case (1 rl b t p s depth src i)
  show ?case
    using 1
    by (simp only: validate_loop.simps [of rl b t p s depth src i])
       (auto split: sum.splits if_splits)
qed


lemma fsPath_Inr_locOK: "fsPath rl b src t = Inr R \<Longrightarrow> locOK b R"
  by (auto simp: fsPath_def validatePath_def locOK_def
           split: if_splits sum.splits option.splits loop_exit.splits)

text \<open>
  C1. Whatever the segments, the host and the flag: a path \<^verbatim>\<open>_fsPath\<close> returns is the base
  directory or the base directory followed by the separator and more. When the loop of
  \<^verbatim>\<open>_validatePath\<close> ends with a running path outside that set, or by \<^verbatim>\<open>return null\<close>,
  \<^verbatim>\<open>_fsPath\<close> throws the \<^verbatim>\<open>VFSError\<close> with code \<^verbatim>\<open>EINVAL\<close> and returns no path.
\<close>

theorem fsPath_within_base:
  "(fsPath rl b src t = Inr R \<longrightarrow> R = b \<or> (\<exists>rest. R = b @ path_sep @ rest))
   \<and> (src \<noteq> [] \<and> snd (validate_loop rl b t b True 0 src 0) = Finished p
        \<and> \<not> (p = b \<or> (\<exists>rest. p = b @ path_sep @ rest)) \<longrightarrow>
      fsPath rl b src t = Inl (VFSError ''path outside base directory'' (Some ''EINVAL'') None))
   \<and> (src \<noteq> [] \<and> snd (validate_loop rl b t b True 0 src 0) = ReturnNull \<longrightarrow>
      fsPath rl b src t = Inl (VFSError ''path outside base directory'' (Some ''EINVAL'') None))"
proof (intro conjI impI)
  assume "fsPath rl b src t = Inr R"
  then have "locOK b R" by (rule fsPath_Inr_locOK)
  then show "R = b \<or> (\<exists>rest. R = b @ path_sep @ rest)" by (simp add: locOK_iff)
next
  assume a: "src \<noteq> [] \<and> snd (validate_loop rl b t b True 0 src 0) = Finished p
        \<and> \<not> (p = b \<or> (\<exists>rest. p = b @ path_sep @ rest))"
  then have "\<not> locOK b p" by (simp add: locOK_iff)
  with a show "fsPath rl b src t = Inl (VFSError ''path outside base directory'' (Some ''EINVAL'') None)"
    by (simp add: fsPath_def validatePath_def)
next
  assume "src \<noteq> [] \<and> snd (validate_loop rl b t b True 0 src 0) = ReturnNull"
  then show "fsPath rl b src t = Inl (VFSError ''path outside base directory'' (Some ''EINVAL'') None)"
    by (simp add: fsPath_def validatePath_def)
qed

theorem fsPath_within_base_witness:
  "fsPath absolute_link_readlink ''/root'' [''a'', ''b''] True = Inr ''/root/a/b''
   \<and> (''/root/a/b'' = ''/root'' \<or> (\<exists>rest. ''/root/a/b'' = ''/root'' @ path_sep @ rest))
   \<and> snd (validate_loop absolute_link_readlink ''/root'' True ''/root'' True 0 [''out'', ''passwd''] 0)
       = Finished ''//etc/passwd''
   \<and> fsPath absolute_link_readlink ''/root'' [''out'', ''passwd''] True
       = Inl (VFSError ''path outside base directory'' (Some ''EINVAL'') None)
   \<and> snd (validate_loop absolute_link_readlink ''/root'' True ''/root'' True 0 [''a'', ''..'', ''..''] 0)
       = ReturnNull
   \<and> fsPath absolute_link_readlink ''/root'' [''a'', ''..'', ''..''] True
       = Inl (VFSError ''path outside base directory'' (Some ''EINVAL'') None)"
proof -
  have r1: "fsPath absolute_link_readlink ''/root'' [''a'', ''b''] True = Inr ''/root/a/b''"
    by code_simp
  have r2: "snd (validate_loop absolute_link_readlink ''/root'' True ''/root'' True 0 [''out'', ''passwd''] 0)
       = Finished ''//etc/passwd''"
    by code_simp
  have out: "\<not> (''//etc/passwd'' = ''/root'' \<or> (\<exists>rest. ''//etc/passwd'' = ''/root'' @ path_sep @ rest))"
    by (simp add: path_sep_def)
  have r3: "snd (validate_loop absolute_link_readlink ''/root'' True ''/root'' True 0 [''a'', ''..'', ''..''] 0)
       = ReturnNull"
    by code_simp
  show ?thesis
    using r1 r2 r3 out
      fsPath_within_base [of absolute_link_readlink "''/root''" "[''a'', ''b'']" True "''/root/a/b''" "''//etc/passwd''"]
      fsPath_within_base [of absolute_link_readlink "''/root''" "[''out'', ''passwd'']" True "''/root/a/b''" "''//etc/passwd''"]
      fsPath_within_base [of absolute_link_readlink "''/root''" "[''a'', ''..'', ''..'']" True "''/root/a/b''" "''//etc/passwd''"]
    by simp
qed

text \<open>
  C2. With the base directory \<^verbatim>\<open>/root\<close> and the link \<^verbatim>\<open>/root/link\<close> whose stored target is
  \<^verbatim>\<open>sub\<close>, resolving \<^verbatim>\<open>["link", "file.txt"]\<close> gives \<^verbatim>\<open>/root/file.txt\<close>, not
  \<^verbatim>\<open>/root/sub/file.txt\<close>: after the link is read the loop continues at index 1 of the new
  work list, whose index 0 holds the first component of the target.
\<close>

theorem relative_link_first_component_skipped:
  "fsPath (fs_readlink relative_link_host) ''/root'' [''link'', ''file.txt''] True
     = Inr ''/root/file.txt''"
  by code_simp

text \<open>
  C3. \<^verbatim>\<open>validate_loop\<close> is total: every iteration either moves \<^verbatim>\<open>i\<close> forward in the
  current work list or reads one more link, and the 41st link read ends the call (the
  termination proof of \<open>validate_loop\<close>). In every call, which starts its counter at 0,
  at most 41 links are read, and a call that reads more than 40 throws the \<^verbatim>\<open>VFSError\<close>
  \<^verbatim>\<open>too many symlinks\<close> with code \<^verbatim>\<open>EINVAL\<close>.
\<close>

theorem hop_limit:
  "fsPath_hops rl b src t \<le> 41
   \<and> (40 < fsPath_hops rl b src t \<longrightarrow>
        fsPath rl b src t = Inl (VFSError ''too many symlinks'' (Some ''EINVAL'') None))"
proof (cases "src = []")
  case True
  then show ?thesis by (simp add: fsPath_hops_def)
next
  case False
  have "fst (validate_loop rl b t b True 0 src 0) \<le> 41 \<and>
   (40 < fst (validate_loop rl b t b True 0 src 0) \<longrightarrow>
      snd (validate_loop rl b t b True 0 src 0) =
        Throw (VFSError ''too many symlinks'' (Some ''EINVAL'') None))"
    by (rule validate_loop_depth) simp
  with False show ?thesis
    by (simp add: fsPath_hops_def fsPath_def validatePath_def)
qed

theorem hop_limit_witness:
  "40 < fsPath_hops self_link_readlink ''/r'' [''a''] True
   \<and> fsPath self_link_readlink ''/r'' [''a''] True
       = Inl (VFSError ''too many symlinks'' (Some ''EINVAL'') None)
   \<and> 40 < fsPath_hops mutual_links_readlink ''/r'' [''a'', ''x''] False
   \<and> fsPath mutual_links_readlink ''/r'' [''a'', ''x''] False
       = Inl (VFSError ''too many symlinks'' (Some ''EINVAL'') None)"
proof -
  have "fsPath_hops self_link_readlink ''/r'' [''a''] True = 41"
    by code_simp
  then have h: "40 < fsPath_hops self_link_readlink ''/r'' [''a''] True"
    by simp
  have "fsPath_hops mutual_links_readlink ''/r'' [''a'', ''x''] False = 41"
    by code_simp
  then have h': "40 < fsPath_hops mutual_links_readlink ''/r'' [''a'', ''x''] False"
    by simp
  from h h' hop_limit [of self_link_readlink "''/r''" "[''a'']" True]
    hop_limit [of mutual_links_readlink "''/r''" "[''a'', ''x'']" False]
  show ?thesis
    by simp
qed

text \<open>
  C10. For the empty segment list \<^verbatim>\<open>_fsPath\<close> returns the base directory, whatever the host
  would answer (the host's \<^verbatim>\<open>readlink\<close> is a parameter the result does not depend on),
  and no link is counted.
\<close>

theorem fsPath_empty:
  "fsPath rl b [] t = Inr b \<and> fsPath_hops rl b [] t = 0"
  by (simp add: fsPath_def fsPath_hops_def)

section \<open>Properties: the operations\<close>

text \<open>
  C5. \<^verbatim>\<open>_exists\<close> returns \<^verbatim>\<open>false\<close> exactly when full resolution followed by \<^verbatim>\<open>stat\<close> fails
  with a \<^verbatim>\<open>VFSError\<close> of code \<^verbatim>\<open>ENOENT\<close>; any other failure is rethrown as it is, and
  success gives \<^verbatim>\<open>true\<close>.
\<close>

theorem exists_false_iff_not_found:
  "(exists h b file = Inr False) =
     (\<exists>e. stat_resolved h b file = Inl e \<and> is_VFSError e \<and> err_code e = Some ''ENOENT'')
   \<and> (stat_resolved h b file = Inl e \<and> \<not> (is_VFSError e \<and> err_code e = Some ''ENOENT'') \<longrightarrow>
        exists h b file = Inl e)
   \<and> (stat_resolved h b file = Inr st \<longrightarrow> exists h b file = Inr True)"
  by (auto simp: exists_def split: sum.splits)

theorem exists_false_iff_not_found_witness:
  "stat_resolved small_host ''/root'' [''x''] =
     Inl (VFSError ''no such file or directory'' (Some ''ENOENT'') (Some no_entry))
   \<and> exists small_host ''/root'' [''x''] = Inr False
   \<and> stat_resolved small_host ''/root'' [''..''] =
     Inl (VFSError ''path outside base directory'' (Some ''EINVAL'') None)
   \<and> exists small_host ''/root'' [''..''] =
     Inl (VFSError ''path outside base directory'' (Some ''EINVAL'') None)
   \<and> stat_resolved small_host ''/root'' [''a''] = Inr ()
   \<and> exists small_host ''/root'' [''a''] = Inr True"
proof -
  have s1: "stat_resolved small_host ''/root'' [''x''] =
     Inl (VFSError ''no such file or directory'' (Some ''ENOENT'') (Some no_entry))"
    by code_simp
  have s2: "stat_resolved small_host ''/root'' [''..''] =
     Inl (VFSError ''path outside base directory'' (Some ''EINVAL'') None)"
    by code_simp
  have s3: "stat_resolved small_host ''/root'' [''a''] = Inr ()"
    by code_simp
  show ?thesis
    using s1 s2 s3
      exists_false_iff_not_found [of small_host "''/root''" "[''x'']"
        "VFSError ''path outside base directory'' (Some ''EINVAL'') None" "()"]
      exists_false_iff_not_found [of small_host "''/root''" "[''..'']"
        "VFSError ''path outside base directory'' (Some ''EINVAL'') None" "()"]
      exists_false_iff_not_found [of small_host "''/root''" "[''a'']"
        "VFSError ''path outside base directory'' (Some ''EINVAL'') None" "()"]
    by simp
qed

text \<open>
  With \<^verbatim>\<open>throughLast = false\<close> a link named by the one segment is not followed: the
  resolution returns the link's own path, \<^verbatim>\<open>_removeFile\<close> hands it to \<^verbatim>\<open>unlink\<close>, and
  \<^verbatim>\<open>_readSymlink\<close> reads its stored target.
\<close>

lemma fsPath_final_link_kept:
  assumes "rl (b @ path_sep @ n) = Inr target" and "n \<noteq> []" and "n \<noteq> ''.''" and "n \<noteq> ''..''"
  shows "fsPath rl b [n] False = Inr (b @ path_sep @ n)"
proof -
  have "validate_loop rl b False b True 0 [n] 0 = (1, Finished (b @ path_sep @ n))"
    using assms by (simp add: validate_loop.simps [of rl b False b True 0 "[n]" 0] child_of_def)
  moreover have "locOK b (b @ path_sep @ n)"
    by (simp add: locOK_iff)
  ultimately show ?thesis
    by (simp add: fsPath_def validatePath_def path_sep_def)
qed

lemma removeFile_unlinks_the_link:
  assumes "fs_readlink h (b @ path_sep @ n) = Inr target" and "n \<noteq> []" and "n \<noteq> ''.''" and "n \<noteq> ''..''"
  shows "removeFile h b [n] = withVFSErr (fs_unlink h (b @ path_sep @ n))"
  using fsPath_final_link_kept [of "fs_readlink h" b n target] assms by (simp add: removeFile_def)

lemma readSymlink_reads_the_link:
  assumes "fs_readlink h (b @ path_sep @ n) = Inr target" and "n \<noteq> []" and "n \<noteq> ''.''" and "n \<noteq> ''..''"
  shows "readSymlink x h b [n] =
           relPath x b (path_resolve x (path_dirname x (b @ path_sep @ n)) target) True"
  using fsPath_final_link_kept [of "fs_readlink h" b n target] assms
  by (simp add: readSymlink_def withVFSErr_def)

text \<open>
  C6. \<^verbatim>\<open>_realPath\<close> on the link \<^verbatim>\<open>/root/link\<close>, whose stored target is \<^verbatim>\<open>sub\<close>: the resolution
  follows the link and ends at \<^verbatim>\<open>/root\<close>, so the operation returns the virtual path of the
  base directory, while the link's target is \<^verbatim>\<open>/root/sub\<close>.
\<close>

theorem realPath_relative_link_gives_base:
  "fsPath (fs_readlink relative_link_host) ''/root'' [''link''] True = Inr ''/root''
   \<and> realPath x relative_link_host ''/root'' [''link''] = relPath x ''/root'' ''/root'' True
   \<and> fs_realpath relative_link_host ''/root/link'' = Inr ''/root/sub''"
proof -
  have r: "fsPath (fs_readlink relative_link_host) ''/root'' [''link''] True = Inr ''/root''"
    by code_simp
  have p: "fs_realpath relative_link_host ''/root'' = Inr ''/root''"
    by (simp add: relative_link_host_def)
  have q: "fs_realpath relative_link_host ''/root/link'' = Inr ''/root/sub''"
    by (simp add: relative_link_host_def)
  show ?thesis
    using r p q by (simp add: realPath_def withVFSErr_def)
qed

text \<open>
  C9. When the link path resolves, \<^verbatim>\<open>_symlink\<close> hands the host the target segments joined
  by the separator, as they are for a relative target and after the base directory and
  a separator otherwise; the result is the host's, whatever the target. When the link
  path does not resolve, the operation fails with that error. Containment is checked
  when the link is followed: with the base directory \<^verbatim>\<open>/root\<close>, a resolution that follows
  the link \<^verbatim>\<open>/root/esc\<close> with the stored target \<^verbatim>\<open>../../etc\<close> fails with code \<^verbatim>\<open>EINVAL\<close>.
\<close>

theorem symlink_target_unchecked:
  "(fsPath (fs_readlink h) b link True = Inr loc \<longrightarrow>
      symlink h b target link relative =
        withVFSErr (fs_symlink h
          ((if relative then [] else b @ path_sep) @ array_join path_sep target) loc))
   \<and> (fsPath (fs_readlink h) b link True = Inl err \<longrightarrow>
        symlink h b target link relative = Inl err)
   \<and> (rl ''/root/esc'' = Inr ''../../etc'' \<and> (t \<or> rest \<noteq> []) \<longrightarrow>
        fsPath rl ''/root'' (''esc'' # rest) t =
          Inl (VFSError ''path outside base directory'' (Some ''EINVAL'') None))"
proof (intro conjI impI)
  assume "fsPath (fs_readlink h) b link True = Inr loc"
  then show "symlink h b target link relative =
        withVFSErr (fs_symlink h
          ((if relative then [] else b @ path_sep) @ array_join path_sep target) loc)"
    by (simp add: symlink_def)
next
  assume "fsPath (fs_readlink h) b link True = Inl err"
  then show "symlink h b target link relative = Inl err"
    by (simp add: symlink_def)
next
  assume a: "rl ''/root/esc'' = Inr ''../../etc'' \<and> (t \<or> rest \<noteq> [])"
  have up: "path_join ''/root'' ''..'' = ''/''"
    by (simp add: path_join_def path_normalize_def)
  have out: "\<not> locOK ''/root'' ''/''"
    by (simp add: locOK_def)
  have "validate_loop rl ''/root'' t ''/root'' True 0 (''esc'' # rest) 0
          = validate_loop rl ''/root'' t ''/root'' True 1 ([''..'', ''..'', ''etc''] @ rest) (Suc 0)"
    using a
    by (subst validate_loop.simps) (auto simp: child_of_def path_sep_def path_isAbsolute_def)
  also have "\<dots> = (1, ReturnNull)"
    using up out by (subst validate_loop.simps) simp
  finally show "fsPath rl ''/root'' (''esc'' # rest) t =
          Inl (VFSError ''path outside base directory'' (Some ''EINVAL'') None)"
    by (simp add: fsPath_def validatePath_def)
qed

theorem symlink_target_unchecked_witness:
  "fsPath (fs_readlink small_host) ''/root'' [''esc''] True = Inr ''/root/esc''
   \<and> array_join path_sep [''..'', ''..'', ''etc''] = ''../../etc''
   \<and> (''/root'' @ path_sep) @ array_join path_sep [''..'', ''..'', ''etc''] = ''/root/../../etc''
   \<and> symlink small_host ''/root'' [''..'', ''..'', ''etc''] [''esc''] True
       = withVFSErr (fs_symlink small_host ''../../etc'' ''/root/esc'')
   \<and> symlink small_host ''/root'' [''..'', ''..'', ''etc''] [''esc''] True = Inr ()
   \<and> symlink small_host ''/root'' [''..'', ''..'', ''etc''] [''esc''] False
       = withVFSErr (fs_symlink small_host ''/root/../../etc'' ''/root/esc'')
   \<and> fsPath (fs_readlink small_host) ''/root'' [''..'', ''esc''] True
       = Inl (VFSError ''path outside base directory'' (Some ''EINVAL'') None)
   \<and> symlink small_host ''/root'' [''a''] [''..'', ''esc''] True
       = Inl (VFSError ''path outside base directory'' (Some ''EINVAL'') None)
   \<and> escaping_link_readlink ''/root/esc'' = Inr ''../../etc''
   \<and> fsPath escaping_link_readlink ''/root'' [''esc'', ''passwd''] True
       = Inl (VFSError ''path outside base directory'' (Some ''EINVAL'') None)"
proof -
  have r1: "fsPath (fs_readlink small_host) ''/root'' [''esc''] True = Inr ''/root/esc''"
    by code_simp
  have r2: "fsPath (fs_readlink small_host) ''/root'' [''..'', ''esc''] True
       = Inl (VFSError ''path outside base directory'' (Some ''EINVAL'') None)"
    by code_simp
  have r3: "escaping_link_readlink ''/root/esc'' = Inr ''../../etc''"
    by (simp add: escaping_link_readlink_def)
  have ok: "fs_symlink small_host ''../../etc'' ''/root/esc'' = Inr ()"
    by (simp add: small_host_def)
  show ?thesis
    using r1 r2 r3 ok
      symlink_target_unchecked [of small_host "''/root''" "[''esc'']" "''/root/esc''"
        "[''..'', ''..'', ''etc'']" True
        "VFSError ''path outside base directory'' (Some ''EINVAL'') None"
        escaping_link_readlink True "[''passwd'']"]
      symlink_target_unchecked [of small_host "''/root''" "[''esc'']" "''/root/esc''"
        "[''..'', ''..'', ''etc'']" False
        "VFSError ''path outside base directory'' (Some ''EINVAL'') None"
        escaping_link_readlink True "[''passwd'']"]
      symlink_target_unchecked [of small_host "''/root''" "[''..'', ''esc'']" "''/root/esc''"
        "[''a'']" True
        "VFSError ''path outside base directory'' (Some ''EINVAL'') None"
        escaping_link_readlink True "[''passwd'']"]
    by (simp add: path_sep_def withVFSErr_def)
qed

section \<open>Properties: watching\<close>

text \<open>What one registration is sent for one event, among the notifications of them all.\<close>

lemma fire_matching_notified:
  "n \<in> set (fire_matching absEvt relEvt cb) \<Longrightarrow> notified n = reg_id cb"
  by (auto simp: fire_matching_def split: if_splits)

lemma filter_fire_matching_other:
  "reg_id c \<noteq> r \<Longrightarrow> filter (\<lambda>n. notified n = r) (fire_matching absEvt relEvt c) = []"
  by (auto simp: fire_matching_def)

lemma filter_fire_matching_same:
  "filter (\<lambda>n. notified n = reg_id c) (fire_matching absEvt relEvt c) = fire_matching absEvt relEvt c"
  by (auto simp: fire_matching_def)

lemma filter_absent:
  "r \<notin> reg_id ` set cbs \<Longrightarrow>
   filter (\<lambda>n. notified n = r) (concat (map (fire_matching absEvt relEvt) cbs)) = []"
  by (induction cbs) (auto simp: filter_fire_matching_other)

lemma filter_one_registration:
  "cb \<in> set cbs \<Longrightarrow> distinct (map reg_id cbs) \<Longrightarrow>
   filter (\<lambda>n. notified n = reg_id cb) (concat (map (fire_matching absEvt relEvt) cbs))
     = fire_matching absEvt relEvt cb"
proof (induction cbs)
  case Nil
  then show ?case by simp
next
  case (Cons c cbs)
  show ?case
  proof (cases "c = cb")
    case True
    with Cons.prems have "reg_id cb \<notin> reg_id ` set cbs" by simp
    then have "filter (\<lambda>n. notified n = reg_id cb) (concat (map (fire_matching absEvt relEvt) cbs)) = []"
      by (rule filter_absent)
    with True show ?thesis by (simp add: filter_fire_matching_same)
  next
    case False
    with Cons.prems have in_rest: "cb \<in> set cbs" and d: "distinct (map reg_id cbs)"
      and "reg_id c \<notin> reg_id ` set cbs" by auto
    then have "reg_id c \<noteq> reg_id cb" by auto
    with Cons.IH [OF in_rest d] show ?thesis
      by (simp add: filter_fire_matching_other)
  qed
qed

text \<open>
  When \<^verbatim>\<open>_onWatchEvent\<close> is called on the backend, for a batch of events on the volume of
  the base directory and a registration of the set: event by event, the registration is
  sent the absolute form with the change type when its predicate matches the absolute
  form; otherwise the relative form with the change type when its predicate matches
  that; otherwise nothing. So it is notified at most once for an event.
\<close>

lemma onWatchEvent_on_backend_per_registration:
  assumes roots: "\<forall>e \<in> set events. parsed_root (path_parse (event_path e)) = parsed_root (path_parse base)"
    and cb: "cb \<in> set cbs"
    and ids: "distinct (map reg_id cbs)"
  shows "filter (\<lambda>n. notified n = reg_id cb) (fst (onWatchEvent x (Some (base, cbs)) None events)) =
           concat (map (\<lambda>e.
             if isMatch cb (vfs_join x ''/'' (js_split (path_relative x base (event_path e))))
             then [Fired (reg_id cb)
                     \<lparr>event_path = vfs_join x ''/'' (js_split (path_relative x base (event_path e))),
                      event_type = event_type e\<rparr>]
             else if isMatch cb (vfs_join x ''.'' (js_split (path_relative x base (event_path e))))
             then [Fired (reg_id cb)
                     \<lparr>event_path = vfs_join x ''.'' (js_split (path_relative x base (event_path e))),
                      event_type = event_type e\<rparr>]
             else []) events)
         \<and> snd (onWatchEvent x (Some (base, cbs)) None events) = None"
proof -
  have "filter (\<lambda>n. notified n = reg_id cb) (fst (fan_out x base cbs events)) =
           concat (map (\<lambda>e.
             if isMatch cb (vfs_join x ''/'' (js_split (path_relative x base (event_path e))))
             then [Fired (reg_id cb)
                     \<lparr>event_path = vfs_join x ''/'' (js_split (path_relative x base (event_path e))),
                      event_type = event_type e\<rparr>]
             else if isMatch cb (vfs_join x ''.'' (js_split (path_relative x base (event_path e))))
             then [Fired (reg_id cb)
                     \<lparr>event_path = vfs_join x ''.'' (js_split (path_relative x base (event_path e))),
                      event_type = event_type e\<rparr>]
             else []) events)
         \<and> snd (fan_out x base cbs events) = None"
    using roots
  proof (induction events)
    case Nil
    then show ?case by simp
  next
    case (Cons e events)
    then have IH: "filter (\<lambda>n. notified n = reg_id cb) (fst (fan_out x base cbs events)) =
           concat (map (\<lambda>e.
             if isMatch cb (vfs_join x ''/'' (js_split (path_relative x base (event_path e))))
             then [Fired (reg_id cb)
                     \<lparr>event_path = vfs_join x ''/'' (js_split (path_relative x base (event_path e))),
                      event_type = event_type e\<rparr>]
             else if isMatch cb (vfs_join x ''.'' (js_split (path_relative x base (event_path e))))
             then [Fired (reg_id cb)
                     \<lparr>event_path = vfs_join x ''.'' (js_split (path_relative x base (event_path e))),
                      event_type = event_type e\<rparr>]
             else []) events)"
      and none: "snd (fan_out x base cbs events) = None"
      and root: "parsed_root (path_parse (event_path e)) = parsed_root (path_parse base)"
      by simp_all
    obtain later thrown where f: "fan_out x base cbs events = (later, thrown)"
      by (cases "fan_out x base cbs events")
    from root f IH none show ?case
      by (simp add: relPath_def filter_one_registration [OF cb ids] fire_matching_def)
  qed
  then show ?thesis
    by (simp add: onWatchEvent_def split: prod.splits)
qed

lemma onWatchEvent_on_backend_example:
  "filter (\<lambda>n. notified n = 1)
     (fst (onWatchEvent plain_externals (Some (''/root'', example_registrations)) None
             [\<lparr>event_path = ''/root/sub/file.txt'', event_type = ''update''\<rparr>]))
     = [Fired 1 \<lparr>event_path = ''/sub/file.txt'', event_type = ''update''\<rparr>]
   \<and> filter (\<lambda>n. notified n = 2)
     (fst (onWatchEvent plain_externals (Some (''/root'', example_registrations)) None
             [\<lparr>event_path = ''/root/sub/file.txt'', event_type = ''update''\<rparr>]))
     = [Fired 2 \<lparr>event_path = ''./sub/file.txt'', event_type = ''update''\<rparr>]
   \<and> filter (\<lambda>n. notified n = 3)
     (fst (onWatchEvent plain_externals (Some (''/root'', example_registrations)) None
             [\<lparr>event_path = ''/root/sub/file.txt'', event_type = ''update''\<rparr>]))
     = []
   \<and> filter (\<lambda>n. notified n = 4)
     (fst (onWatchEvent plain_externals (Some (''/root'', example_registrations)) None
             [\<lparr>event_path = ''/root/sub/file.txt'', event_type = ''update''\<rparr>]))
     = [Fired 4 \<lparr>event_path = ''/sub/file.txt'', event_type = ''update''\<rparr>]"
proof -
  have roots: "\<forall>e \<in> set [\<lparr>event_path = ''/root/sub/file.txt'', event_type = ''update''\<rparr>].
      parsed_root (path_parse (event_path e)) = parsed_root (path_parse ''/root'')"
    by (simp add: path_parse_def)
  have ids: "distinct (map reg_id example_registrations)"
    by (simp add: example_registrations_def)
  have m1: "\<lparr>reg_id = 1, isMatch = (\<lambda>p. p = ''/sub/file.txt'')\<rparr> \<in> set example_registrations"
    and m2: "\<lparr>reg_id = 2, isMatch = (\<lambda>p. p = ''./sub/file.txt'')\<rparr> \<in> set example_registrations"
    and m3: "\<lparr>reg_id = 3, isMatch = (\<lambda>p. p = ''/other'')\<rparr> \<in> set example_registrations"
    and m4: "\<lparr>reg_id = 4, isMatch = (\<lambda>p. True)\<rparr> \<in> set example_registrations"
    by (simp_all add: example_registrations_def)
  show ?thesis
    using onWatchEvent_on_backend_per_registration [OF roots m1 ids, of plain_externals]
      onWatchEvent_on_backend_per_registration [OF roots m2 ids, of plain_externals]
      onWatchEvent_on_backend_per_registration [OF roots m3 ids, of plain_externals]
      onWatchEvent_on_backend_per_registration [OF roots m4 ids, of plain_externals]
    by (simp add: plain_externals_def)
qed

text \<open>
  C7. The handler registered on line 495 runs without its receiver. For a native event
  below the base directory \<^verbatim>\<open>/root\<close>, whatever the registrations and their predicates, it
  throws the \<^verbatim>\<open>TypeError\<close> of line 286 and no registration is notified, in neither form.
  The same event given to \<^verbatim>\<open>_onWatchEvent\<close> called on the backend notifies the
  registrations that match: the one matching the absolute form and the one matching
  every path with the absolute form, the one matching the relative form only with the
  relative form.
\<close>

theorem subscribed_handler_notifies_nobody:
  "subscribed_handler x None [\<lparr>event_path = ''/root/sub/file.txt'', event_type = ''update''\<rparr>]
     = ([], Some (HostError ''TypeError''
                    ''Cannot read properties of undefined (reading '_relPath')'' None))
   \<and> onWatchEvent plain_externals (Some (''/root'', example_registrations)) None
         [\<lparr>event_path = ''/root/sub/file.txt'', event_type = ''update''\<rparr>]
     = ([Fired 1 \<lparr>event_path = ''/sub/file.txt'', event_type = ''update''\<rparr>,
         Fired 2 \<lparr>event_path = ''./sub/file.txt'', event_type = ''update''\<rparr>,
         Fired 4 \<lparr>event_path = ''/sub/file.txt'', event_type = ''update''\<rparr>],
        None)"
proof -
  have unbound:
    "subscribed_handler x None [\<lparr>event_path = ''/root/sub/file.txt'', event_type = ''update''\<rparr>]
       = ([], Some (HostError ''TypeError''
                      ''Cannot read properties of undefined (reading '_relPath')'' None))"
    by (simp add: subscribed_handler_def onWatchEvent_def)
  have bound:
    "onWatchEvent plain_externals (Some (''/root'', example_registrations)) None
         [\<lparr>event_path = ''/root/sub/file.txt'', event_type = ''update''\<rparr>]
     = ([Fired 1 \<lparr>event_path = ''/sub/file.txt'', event_type = ''update''\<rparr>,
         Fired 2 \<lparr>event_path = ''./sub/file.txt'', event_type = ''update''\<rparr>,
         Fired 4 \<lparr>event_path = ''/sub/file.txt'', event_type = ''update''\<rparr>],
        None)"
    by (simp add: onWatchEvent_def relPath_def path_parse_def plain_externals_def
          example_registrations_def fire_matching_def)
  from unbound bound show ?thesis by simp
qed

text \<open>
  When \<^verbatim>\<open>subscribeWatcher\<close> succeeds, \<^verbatim>\<open>_watch\<close> keeps the subscription in step with the
  registration set, and so does the unsubscribe function, whatever the native
  \<^verbatim>\<open>unsubscribe\<close> answers.
\<close>

lemma watch_subscribed_consistent:
  "consistent s \<Longrightarrow> consistent (snd (watch entry (Inr w) s))"
  by (auto simp: consistent_def watch_def withVFSErr_def Let_def)

lemma unsubscribe_consistent:
  "consistent s \<Longrightarrow> consistent (snd (unsubscribe entry native_unsubscribe s))"
  by (auto simp: consistent_def unsubscribe_def Let_def split: option.splits)

lemma watch_first_creates:
  "watch entry (Inr w) \<lparr>watchCallbacks = {}, watcher = None\<rparr>
     = (Inr (), \<lparr>watchCallbacks = {entry}, watcher = Some w\<rparr>)"
  by (simp add: watch_def withVFSErr_def)

lemma watch_second_shares:
  "watch entry' (Inr w') \<lparr>watchCallbacks = {entry}, watcher = Some w\<rparr>
     = (Inr (), \<lparr>watchCallbacks = {entry', entry}, watcher = Some w\<rparr>)"
  by (simp add: watch_def)

lemma unsubscribe_last_tears_down:
  "unsubscribe entry native_unsubscribe \<lparr>watchCallbacks = {entry}, watcher = Some w\<rparr>
     = (withVFSErr (native_unsubscribe w), \<lparr>watchCallbacks = {}, watcher = None\<rparr>)"
  by (simp add: unsubscribe_def)

text \<open>
  C8. When \<^verbatim>\<open>subscribeWatcher\<close> rejects, \<^verbatim>\<open>_watch\<close> has already added the registration
  (line 493) and throws without removing it: the registration set is not empty and
  there is no subscription.
\<close>

theorem watch_failed_subscribe_keeps_registration:
  "watch 1 (Inl no_entry) \<lparr>watchCallbacks = {}, watcher = None\<rparr>
     = (Inl (VFSError ''no such file or directory'' (Some ''ENOENT'') (Some no_entry)),
        \<lparr>watchCallbacks = {1}, watcher = None\<rparr>)"
  by (simp add: watch_def withVFSErr_def wrapVFSErr_def no_entry_def allowedErrorTypes_def)


end
